theory Spec2Isabelle
  imports Main "HOL-Library.Sublist"
begin

section \<open>The print command of ingress2gateway (cmd/print.go)\<close>

subsection \<open>Errors and formatting\<close>

text \<open>
  A Go \<^verbatim>\<open>error\<close> value. \<^verbatim>\<open>fmt.Errorf\<close> without \<^verbatim>\<open>%w\<close> yields a plain error
  carrying its message; with \<^verbatim>\<open>%w\<close> it yields an error carrying the whole formatted
  message and the wrapped error. A nil error is \<open>None\<close> of \<open>error option\<close>.
\<close>

datatype error = errorString string | wrapError string error

fun Error :: "error \<Rightarrow> string" where
  "Error (errorString s) = s"
| "Error (wrapError s e) = s"

text \<open>The verb \<^verbatim>\<open>%d\<close> on a length: decimal digits, no sign, no padding.\<close>

fun formatInt :: "nat \<Rightarrow> string" where
  "formatInt n =
     (if n < 10 then [''0123456789'' ! n]
      else formatInt (n div 10) @ [''0123456789'' ! (n mod 10)])"

declare formatInt.simps [simp del]

definition newline :: string where
  "newline = [CHR 0x0A]"

subsection \<open>Resources\<close>

text \<open>
  The Kubernetes objects the command handles. The code reads the name of a Gateway and
  of an HTTPRoute and the number of Ingresses; the rest of each object is passed on
  unread and is kept as one opaque field.
\<close>

record ObjectMeta =
  Name :: string
  Namespace :: string

record Ingress = ObjectMeta +
  IngressSpec :: string

record Gateway = ObjectMeta +
  GatewaySpec :: string

record HTTPRoute = ObjectMeta +
  HTTPRouteSpec :: string

text \<open>What \<^verbatim>\<open>PrintObj\<close> receives: a pointer to a Gateway or to an HTTPRoute.\<close>

datatype Object = GatewayObj Gateway | HTTPRouteObj HTTPRoute

text \<open>
  A \<^verbatim>\<open>printers.ResourcePrinter\<close>. The code creates \<^verbatim>\<open>&printers.YAMLPrinter{}\<close> or
  \<^verbatim>\<open>&printers.JSONPrinter{}\<close>: a pointer to a fresh struct whose private state may change
  with every \<^verbatim>\<open>PrintObj\<close>. That state is modelled by the objects the printer has been
  given so far, the empty list for a fresh printer.
\<close>

datatype Printer = YAMLPrinter "Object list" | JSONPrinter "Object list"

fun notePrinted :: "Printer \<Rightarrow> Object \<Rightarrow> Printer" where
  "notePrinted (YAMLPrinter h) obj = YAMLPrinter (h @ [obj])"
| "notePrinted (JSONPrinter h) obj = JSONPrinter (h @ [obj])"

subsection \<open>The runner, the collaborators and the outside world\<close>

record PrintRunner =
  outputFormat :: string
  inputFile :: string
  namespace :: string
  allNamespaces :: bool
  resourcePrinter :: "Printer option"
  namespaceFilter :: string

text \<open>
  Modelled from the spec: the collaborators of the command, whose code is not among the
  source files (the package \<^verbatim>\<open>pkg/i2gw\<close> of this repository, and the libraries client-go,
  controller-runtime and cli-runtime). The specification takes the conversion as a pure
  function of the fetched list, and the file and the cluster as providers of a list for
  a filter. Each collaborator is a parameter, a function of what the command passes to it:
  \<^item> \<open>kubeConfigNamespace\<close>: the namespace and the error of \<^verbatim>\<open>kubeConfig.Namespace()\<close>;
  \<^item> \<open>ConstructIngressesFromFile\<close>, given the input file and the namespace filter: the
    items it leaves in the list and its error;
  \<^item> \<open>GetConfig\<close> and \<open>clientNew\<close>: the errors of \<^verbatim>\<open>config.GetConfig()\<close> and of
    \<^verbatim>\<open>client.New\<close> on that configuration;
  \<^item> \<open>ConstructIngressesFromCluster\<close>, given the namespace of the namespaced client: the
    items it leaves in the list and its error;
  \<^item> \<open>Ingresses2GatewaysAndHTTPRoutes\<close>: the routes, gateways and errors of the conversion;
  \<^item> \<open>PrintObj\<close>: what a printer writes to the standard output for an object, and its
    error.
\<close>

record Env =
  kubeConfigNamespace :: "string \<times> error option"
  ConstructIngressesFromFile :: "string \<Rightarrow> string \<Rightarrow> Ingress list \<times> error option"
  GetConfig :: "error option"
  clientNew :: "error option"
  ConstructIngressesFromCluster :: "string \<Rightarrow> Ingress list \<times> error option"
  Ingresses2GatewaysAndHTTPRoutes :: "Ingress list \<Rightarrow> HTTPRoute list \<times> Gateway list \<times> error list"
  PrintObj :: "Printer \<Rightarrow> Object \<Rightarrow> string \<times> error option"

text \<open>
  The effects of a run: the bytes written to the standard output, and the calls made to
  the collaborators, in order.
\<close>

datatype Call =
    NamespaceLookup
  | ReadInputFile string string
  | LoadClientConfig
  | CreateClient
  | ListClusterIngresses string
  | Conversion "Ingress list"
  | PrintObjCall Object

record World =
  stdout :: string
  calls :: "Call list"

definition called :: "Call \<Rightarrow> World \<Rightarrow> World" where
  "called c w = w\<lparr>calls := calls w @ [c]\<rparr>"

definition written :: "string \<Rightarrow> World \<Rightarrow> World" where
  "written s w = w\<lparr>stdout := stdout w @ s\<rparr>"

fun isPrintObjCall :: "Call \<Rightarrow> bool" where
  "isPrintObjCall (PrintObjCall obj) = True"
| "isPrintObjCall c = False"

subsection \<open>initializeResourcePrinter\<close>

definition initializeResourcePrinter :: "PrintRunner \<Rightarrow> PrintRunner \<times> error option" where
  "initializeResourcePrinter pr =
     (if outputFormat pr = ''yaml'' \<or> outputFormat pr = '''' then
        (pr\<lparr>resourcePrinter := Some (YAMLPrinter [])\<rparr>, None)
      else if outputFormat pr = ''json'' then
        (pr\<lparr>resourcePrinter := Some (JSONPrinter [])\<rparr>, None)
      else
        (pr, Some (errorString (outputFormat pr @ '' is not a supported output format''))))"

subsection \<open>initializeNamespaceFilter\<close>

definition getNamespaceInCurrentContext :: "Env \<Rightarrow> World \<Rightarrow> string \<times> error option \<times> World" where
  "getNamespaceInCurrentContext env w =
     (let (currentNamespace, err) = kubeConfigNamespace env
      in (currentNamespace, err, called NamespaceLookup w))"

definition initializeNamespaceFilter ::
  "Env \<Rightarrow> PrintRunner \<Rightarrow> World \<Rightarrow> PrintRunner \<times> World \<times> error option" where
  "initializeNamespaceFilter env pr w =
     (if allNamespaces pr then (pr\<lparr>namespaceFilter := ''''\<rparr>, w, None)
      else if namespace pr = '''' then
        (let (ns, err, w') = getNamespaceInCurrentContext env w
         in if err \<noteq> None \<and> inputFile pr = '''' then (pr, w', err)
            else (pr\<lparr>namespaceFilter := ns\<rparr>, w', None))
      else (pr\<lparr>namespaceFilter := namespace pr\<rparr>, w, None))"

subsection \<open>getIngessList\<close>

text \<open>
  The list is filled from the file or from the cluster; an error of that part returns at
  once. The check for an empty list follows, common to both.
\<close>

definition getIngessList ::
  "Env \<Rightarrow> string \<Rightarrow> string \<Rightarrow> World \<Rightarrow> World \<times> (error + Ingress list)" where
  "getIngessList env nsFilter file w =
     (let (w', ingressList) =
        (if file \<noteq> '''' then
           (let w1 = called (ReadInputFile file nsFilter) w;
                (items, err) = ConstructIngressesFromFile env file nsFilter
            in case err of
                 Some e \<Rightarrow> (w1, Inl (wrapError (''failed to open input file: '' @ Error e) e))
               | None \<Rightarrow> (w1, Inr items))
         else
           (let w1 = called LoadClientConfig w
            in case GetConfig env of
                 Some e \<Rightarrow> (w1, Inl (wrapError (''failed to get client config: '' @ Error e) e))
               | None \<Rightarrow>
                   (let w2 = called CreateClient w1
                    in case clientNew env of
                         Some e \<Rightarrow> (w2, Inl (wrapError (''failed to create client: '' @ Error e) e))
                       | None \<Rightarrow>
                           (let w3 = called (ListClusterIngresses nsFilter) w2;
                                (items, err) = ConstructIngressesFromCluster env nsFilter
                            in case err of
                                 Some e \<Rightarrow>
                                   (w3, Inl (wrapError
                                     (''failed to get ingress resources from kubenetes cluster: '' @
                                        Error e) e))
                               | None \<Rightarrow> (w3, Inr items)))))
      in case ingressList of
           Inl e \<Rightarrow> (w', Inl e)
         | Inr items \<Rightarrow>
             if length items = 0 then
               (if nsFilter \<noteq> '''' then
                  (w', Inl (errorString (''No resources found'' @ '' in '' @ nsFilter @ '' namespace'')))
                else (w', Inl (errorString ''No resources found'')))
             else (w', Inr items))"

subsection \<open>outputResult\<close>

fun objName :: "Object \<Rightarrow> string" where
  "objName (GatewayObj g) = Name g"
| "objName (HTTPRouteObj r) = Name r"

text \<open>The line that \<^verbatim>\<open>fmt.Printf("# Error printing %s HTTPRoute: %v\n", name, err)\<close> writes.\<close>

definition printError :: "string \<Rightarrow> error \<Rightarrow> string" where
  "printError name e = ''# Error printing '' @ name @ '' HTTPRoute: '' @ Error e @ newline"

text \<open>One turn of either loop: the call of \<^verbatim>\<open>PrintObj\<close> and the report of its error.\<close>

definition printOne :: "Env \<Rightarrow> Printer \<Rightarrow> World \<Rightarrow> Object \<Rightarrow> Printer \<times> World" where
  "printOne env p w obj =
     (let (out, err) = PrintObj env p obj;
          w1 = written out (called (PrintObjCall obj) w)
      in case err of
           None \<Rightarrow> (notePrinted p obj, w1)
         | Some e \<Rightarrow> (notePrinted p obj, written (printError (objName obj) e) w1))"

fun printGateways :: "Env \<Rightarrow> Printer \<Rightarrow> World \<Rightarrow> Gateway list \<Rightarrow> Printer \<times> World" where
  "printGateways env p w [] = (p, w)"
| "printGateways env p w (g # gs) =
     (let (p', w') = printOne env p w (GatewayObj g) in printGateways env p' w' gs)"

fun printHTTPRoutes :: "Env \<Rightarrow> Printer \<Rightarrow> World \<Rightarrow> HTTPRoute list \<Rightarrow> Printer \<times> World" where
  "printHTTPRoutes env p w [] = (p, w)"
| "printHTTPRoutes env p w (r # rs) =
     (let (p', w') = printOne env p w (HTTPRouteObj r) in printHTTPRoutes env p' w' rs)"

text \<open>
  \<open>None\<close> is the panic of a method call on the nil \<open>resourcePrinter\<close>, which happens at
  the first record when the printer was never initialised.
\<close>

definition outputResult ::
  "Env \<Rightarrow> PrintRunner \<Rightarrow> World \<Rightarrow> HTTPRoute list \<Rightarrow> Gateway list \<Rightarrow> (PrintRunner \<times> World) option" where
  "outputResult env pr w httpRoutes gateways =
     (case resourcePrinter pr of
        None \<Rightarrow> (if gateways = [] \<and> httpRoutes = [] then Some (pr, w) else None)
      | Some p \<Rightarrow>
          (let (p1, w1) = printGateways env p w gateways;
               (p2, w2) = printHTTPRoutes env p1 w1 httpRoutes
           in Some (pr\<lparr>resourcePrinter := Some p2\<rparr>, w2)))"

subsection \<open>PrintGatewaysAndHTTPRoutes\<close>

text \<open>The loop that folds the conversion errors into one error.\<close>

fun appendErrors :: "error \<Rightarrow> error list \<Rightarrow> error" where
  "appendErrors errMsg [] = errMsg"
| "appendErrors errMsg (err # errs) =
     appendErrors (wrapError (newline @ Error errMsg @ '' # '' @ Error err) errMsg) errs"

definition aggregateErrors :: "error list \<Rightarrow> error" where
  "aggregateErrors errList =
     appendErrors
       (errorString (newline @ ''# Encountered '' @ formatInt (length errList) @ '' errors''))
       errList"

text \<open>
  The command's entry point; its two parameters (the cobra command and the arguments)
  are not read. The result is \<open>None\<close> when the run panics.
\<close>

definition PrintGatewaysAndHTTPRoutes ::
  "Env \<Rightarrow> PrintRunner \<Rightarrow> World \<Rightarrow> (PrintRunner \<times> World \<times> error option) option" where
  "PrintGatewaysAndHTTPRoutes env pr w =
     (case initializeResourcePrinter pr of
        (pr1, Some e) \<Rightarrow>
          Some (pr1, w, Some (wrapError (''failed to initialize resrouce printer: '' @ Error e) e))
      | (pr1, None) \<Rightarrow>
          (case initializeNamespaceFilter env pr1 w of
             (pr2, w2, Some e) \<Rightarrow>
               Some (pr2, w2, Some (wrapError (''failed to initialize namespace filter: '' @ Error e) e))
           | (pr2, w2, None) \<Rightarrow>
               (case getIngessList env (namespaceFilter pr2) (inputFile pr2) w2 of
                  (w3, Inl e) \<Rightarrow>
                    Some (pr2, w3, Some (wrapError (''failed to get ingresses from source: '' @ Error e) e))
                | (w3, Inr items) \<Rightarrow>
                    (let w4 = called (Conversion items) w3;
                         (httpRoutes, gateways, errList) = Ingresses2GatewaysAndHTTPRoutes env items
                     in if length errList > 0 then Some (pr2, w4, Some (aggregateErrors errList))
                        else (case outputResult env pr2 w4 httpRoutes gateways of
                                None \<Rightarrow> None
                              | Some (pr3, w5) \<Rightarrow> Some (pr3, w5, None))))))"

subsection \<open>The rendering that the specification describes\<close>

text \<open>
  Written from the specification of the result renderer, to be compared with
  \<open>outputResult\<close>. The order is all the gateways, as given, and then all the routes, as
  given. The records are rendered one after the other; a record is rendered by what its
  \<^verbatim>\<open>PrintObj\<close> writes, followed, when that fails, by a diagnostic line naming the record;
  then the rendering goes on with the next record.
\<close>

definition spec_order :: "HTTPRoute list \<Rightarrow> Gateway list \<Rightarrow> Object list" where
  "spec_order httpRoutes gateways = map GatewayObj gateways @ map HTTPRouteObj httpRoutes"

fun spec_rendering :: "Env \<Rightarrow> Printer \<Rightarrow> Object list \<Rightarrow> string" where
  "spec_rendering env p [] = ''''"
| "spec_rendering env p (obj # objs) =
     fst (PrintObj env p obj) @
     (case snd (PrintObj env p obj) of None \<Rightarrow> '''' | Some e \<Rightarrow> printError (objName obj) e) @
     spec_rendering env (notePrinted p obj) objs"

text \<open>The world \<open>w\<close> after the effects recorded in \<open>d\<close> have happened in it.\<close>

definition followedBy :: "World \<Rightarrow> World \<Rightarrow> World" where
  "followedBy w d = w\<lparr>stdout := stdout w @ stdout d, calls := calls w @ calls d\<rparr>"

subsection \<open>A concrete setting\<close>

text \<open>
  The three Ingresses of the test file \<^verbatim>\<open>pkg/i2gw/testdata/input-file.yaml\<close>, and
  collaborators that behave as follows: the lookup of the current namespace fails, the
  file reader keeps the Ingresses that the filter admits, the cluster has no Ingress,
  the conversion yields one Gateway and one HTTPRoute per Ingress, and printing writes a
  separator before every object but a printer's first, then the name of the object, and
  fails on the object named \<open>ingress2\<close>.
\<close>

definition ingress1 :: Ingress where
  "ingress1 = \<lparr>Name = ''ingress1'', Namespace = ''namespace1'', IngressSpec = ''/test-1 test1:443''\<rparr>"

definition ingress2 :: Ingress where
  "ingress2 = \<lparr>Name = ''ingress2'', Namespace = ''namespace2'', IngressSpec = ''/test-2 test2:80''\<rparr>"

definition ingressNoNamespace :: Ingress where
  "ingressNoNamespace =
     \<lparr>Name = ''ingress-no-namespace'', Namespace = '''',
      IngressSpec = ''/test-no-namespace test-no-namespace:80''\<rparr>"

definition toGateway :: "Ingress \<Rightarrow> Gateway" where
  "toGateway i = \<lparr>Name = Name i, Namespace = Namespace i, GatewaySpec = ''listener''\<rparr>"

definition toHTTPRoute :: "Ingress \<Rightarrow> HTTPRoute" where
  "toHTTPRoute i = \<lparr>Name = Name i, Namespace = Namespace i, HTTPRouteSpec = IngressSpec i\<rparr>"

fun printedBefore :: "Printer \<Rightarrow> Object list" where
  "printedBefore (YAMLPrinter h) = h"
| "printedBefore (JSONPrinter h) = h"

definition lookupFailure :: error where
  "lookupFailure = errorString ''invalid configuration: no configuration has been provided''"

definition printFailure :: error where
  "printFailure = errorString ''unable to marshal''"

definition testEnv :: Env where
  "testEnv =
     \<lparr>kubeConfigNamespace = ('''', Some lookupFailure),
      ConstructIngressesFromFile =
        (\<lambda>file ns.
           if file = ''input-file.yaml'' then
             (filter (\<lambda>i. ns = '''' \<or> Namespace i = ns) [ingress1, ingress2, ingressNoNamespace], None)
           else ([], Some (errorString ''no such file or directory''))),
      GetConfig = None,
      clientNew = None,
      ConstructIngressesFromCluster = (\<lambda>ns. ([], None)),
      Ingresses2GatewaysAndHTTPRoutes = (\<lambda>items. (map toHTTPRoute items, map toGateway items, [])),
      PrintObj =
        (\<lambda>p obj.
           if objName obj = ''ingress2'' then ('''', Some printFailure)
           else ((if printedBefore p = [] then '''' else ''---'' @ newline) @ objName obj @ newline, None))\<rparr>"

text \<open>The same setting with a conversion that reports two errors and converts nothing.\<close>

definition failingConversionEnv :: Env where
  "failingConversionEnv =
     testEnv\<lparr>Ingresses2GatewaysAndHTTPRoutes :=
       (\<lambda>items. ([], [], [errorString ''first failure'', errorString ''second failure'']))\<rparr>"

text \<open>A fresh runner, as \<^verbatim>\<open>newPrintCommand\<close> creates it, with the flags at their defaults.\<close>

definition defaultRunner :: PrintRunner where
  "defaultRunner =
     \<lparr>outputFormat = ''yaml'', inputFile = '''', namespace = '''', allNamespaces = False,
      resourcePrinter = None, namespaceFilter = ''''\<rparr>"

definition emptyWorld :: World where
  "emptyWorld = \<lparr>stdout = '''', calls = []\<rparr>"

section \<open>Properties\<close>

subsection \<open>The namespace filter\<close>

text \<open>
  Claim C2. Whatever the state of the runner, and so whatever the \<^verbatim>\<open>--namespace\<close> flag
  holds, when \<open>allNamespaces\<close> is set \<open>initializeNamespaceFilter\<close> sets the filter to the
  empty string and returns no error. It does so without looking the current namespace up.
\<close>

theorem initializeNamespaceFilter_allNamespaces:
  "allNamespaces pr \<Longrightarrow>
     initializeNamespaceFilter env pr w = (pr\<lparr>namespaceFilter := ''''\<rparr>, w, None)"
  by (simp add: initializeNamespaceFilter_def)

theorem initializeNamespaceFilter_allNamespaces_witness:
  "allNamespaces (defaultRunner\<lparr>allNamespaces := True, namespace := ''namespace1''\<rparr>) \<and>
   initializeNamespaceFilter testEnv
       (defaultRunner\<lparr>allNamespaces := True, namespace := ''namespace1''\<rparr>) emptyWorld =
     (defaultRunner\<lparr>allNamespaces := True, namespace := ''namespace1'', namespaceFilter := ''''\<rparr>,
      emptyWorld, None)"
  using initializeNamespaceFilter_allNamespaces
    [of "defaultRunner\<lparr>allNamespaces := True, namespace := ''namespace1''\<rparr>" testEnv emptyWorld]
  by simp

text \<open>
  When neither flag names a namespace the current namespace is looked up once. The
  lookup's error is returned only on a run without an input file; otherwise the filter is
  the namespace that the lookup returned, with or without an error.
\<close>

lemma initializeNamespaceFilter_lookup:
  assumes "\<not> allNamespaces pr" and "namespace pr = ''''"
    and "kubeConfigNamespace env = (ns, err)"
  shows "initializeNamespaceFilter env pr w =
     (if err \<noteq> None \<and> inputFile pr = '''' then (pr, called NamespaceLookup w, err)
      else (pr\<lparr>namespaceFilter := ns\<rparr>, called NamespaceLookup w, None))"
  using assms by (simp add: initializeNamespaceFilter_def getNamespaceInCurrentContext_def)

text \<open>
  Claim C3. On a run against the cluster (no input file), with \<open>allNamespaces\<close> unset and
  no namespace given, a failed lookup of the current namespace makes
  \<open>initializeNamespaceFilter\<close> return that error; the runner is left as it was.
\<close>

theorem initializeNamespaceFilter_cluster_lookup_fails:
  assumes "inputFile pr = ''''" and "\<not> allNamespaces pr" and "namespace pr = ''''"
    and "kubeConfigNamespace env = (ns, Some e)"
  shows "initializeNamespaceFilter env pr w = (pr, called NamespaceLookup w, Some e)"
  using assms by (simp add: initializeNamespaceFilter_lookup)

theorem initializeNamespaceFilter_cluster_lookup_fails_witness:
  "inputFile defaultRunner = '''' \<and> \<not> allNamespaces defaultRunner \<and>
   namespace defaultRunner = '''' \<and> kubeConfigNamespace testEnv = ('''', Some lookupFailure) \<and>
   initializeNamespaceFilter testEnv defaultRunner emptyWorld =
     (defaultRunner, called NamespaceLookup emptyWorld, Some lookupFailure)"
  using initializeNamespaceFilter_cluster_lookup_fails
    [of defaultRunner testEnv "''''" lookupFailure emptyWorld]
  by (simp add: defaultRunner_def testEnv_def)

text \<open>
  Claim C4. On a run from an input file, with \<open>allNamespaces\<close> unset and no namespace
  given, a failed lookup of the current namespace is not an error of
  \<open>initializeNamespaceFilter\<close>, and the filter becomes the empty string. A failed lookup
  is one that returns an error together with the empty namespace, which is what
  \<^verbatim>\<open>Namespace()\<close> of client-go returns with every error; the filter is assigned the
  namespace that came with the error (lemma \<open>initializeNamespaceFilter_lookup\<close>).
\<close>

theorem initializeNamespaceFilter_file_lookup_fails:
  assumes "inputFile pr \<noteq> ''''" and "\<not> allNamespaces pr" and "namespace pr = ''''"
    and "kubeConfigNamespace env = ('''', Some e)"
  shows "initializeNamespaceFilter env pr w =
     (pr\<lparr>namespaceFilter := ''''\<rparr>, called NamespaceLookup w, None)"
  using assms by (simp add: initializeNamespaceFilter_lookup)

theorem initializeNamespaceFilter_file_lookup_fails_witness:
  "inputFile (defaultRunner\<lparr>inputFile := ''input-file.yaml''\<rparr>) \<noteq> '''' \<and>
   \<not> allNamespaces (defaultRunner\<lparr>inputFile := ''input-file.yaml''\<rparr>) \<and>
   namespace (defaultRunner\<lparr>inputFile := ''input-file.yaml''\<rparr>) = '''' \<and>
   kubeConfigNamespace testEnv = ('''', Some lookupFailure) \<and>
   initializeNamespaceFilter testEnv (defaultRunner\<lparr>inputFile := ''input-file.yaml''\<rparr>) emptyWorld =
     (defaultRunner\<lparr>inputFile := ''input-file.yaml'', namespaceFilter := ''''\<rparr>,
      called NamespaceLookup emptyWorld, None)"
  using initializeNamespaceFilter_file_lookup_fails
    [of "defaultRunner\<lparr>inputFile := ''input-file.yaml''\<rparr>" testEnv lookupFailure emptyWorld]
  by (simp add: defaultRunner_def testEnv_def)

subsection \<open>The output format\<close>

text \<open>
  Claim C10. The empty output format is accepted without error and selects a fresh YAML
  printer, exactly as the format \<open>yaml\<close> does.
\<close>

theorem initializeResourcePrinter_empty_format:
  "initializeResourcePrinter (pr\<lparr>outputFormat := ''''\<rparr>) =
     (pr\<lparr>outputFormat := '''', resourcePrinter := Some (YAMLPrinter [])\<rparr>, None) \<and>
   initializeResourcePrinter (pr\<lparr>outputFormat := ''yaml''\<rparr>) =
     (pr\<lparr>outputFormat := ''yaml'', resourcePrinter := Some (YAMLPrinter [])\<rparr>, None)"
  by (simp add: initializeResourcePrinter_def)

text \<open>
  Claim C6, as stated, fails for the empty format: it is neither \<open>yaml\<close> nor \<open>json\<close>,
  yet the printer is initialised without error and the run goes on to read from the
  cluster.
\<close>

theorem empty_format_accepted_counterexample:
  "'''' \<noteq> ''yaml'' \<and> '''' \<noteq> ''json'' \<and>
   initializeResourcePrinter (defaultRunner\<lparr>outputFormat := '''', allNamespaces := True\<rparr>) =
     (defaultRunner\<lparr>outputFormat := '''', allNamespaces := True,
        resourcePrinter := Some (YAMLPrinter [])\<rparr>, None) \<and>
   PrintGatewaysAndHTTPRoutes testEnv (defaultRunner\<lparr>outputFormat := '''', allNamespaces := True\<rparr>)
       emptyWorld =
     Some (defaultRunner\<lparr>outputFormat := '''', allNamespaces := True,
             resourcePrinter := Some (YAMLPrinter [])\<rparr>,
           \<lparr>stdout = '''', calls = [LoadClientConfig, CreateClient, ListClusterIngresses '''']\<rparr>,
           Some (wrapError ''failed to get ingresses from source: No resources found''
             (errorString ''No resources found'')))"
  by (simp add: PrintGatewaysAndHTTPRoutes_def initializeResourcePrinter_def
      initializeNamespaceFilter_def getIngessList_def called_def
      defaultRunner_def testEnv_def emptyWorld_def)

text \<open>
  Claim C6, amended. For every output format other than \<open>yaml\<close>, \<open>json\<close> and the empty
  string, \<open>initializeResourcePrinter\<close> returns the unsupported-format error and the run
  returns it, wrapped, with the runner and the world as they were: nothing was written,
  and no collaborator was called, so no file was read and the cluster was not accessed.
\<close>

theorem unsupported_format_fails_first:
  assumes "outputFormat pr \<noteq> ''yaml''" and "outputFormat pr \<noteq> ''''"
    and "outputFormat pr \<noteq> ''json''"
  shows "initializeResourcePrinter pr =
           (pr, Some (errorString (outputFormat pr @ '' is not a supported output format''))) \<and>
         PrintGatewaysAndHTTPRoutes env pr w =
           Some (pr, w, Some (wrapError
             (''failed to initialize resrouce printer: '' @ outputFormat pr @
                '' is not a supported output format'')
             (errorString (outputFormat pr @ '' is not a supported output format''))))"
  using assms by (simp add: PrintGatewaysAndHTTPRoutes_def initializeResourcePrinter_def)

theorem unsupported_format_fails_first_witness:
  "outputFormat (defaultRunner\<lparr>outputFormat := ''xml''\<rparr>) \<noteq> ''yaml'' \<and>
   outputFormat (defaultRunner\<lparr>outputFormat := ''xml''\<rparr>) \<noteq> '''' \<and>
   outputFormat (defaultRunner\<lparr>outputFormat := ''xml''\<rparr>) \<noteq> ''json'' \<and>
   PrintGatewaysAndHTTPRoutes testEnv (defaultRunner\<lparr>outputFormat := ''xml''\<rparr>) emptyWorld =
     Some (defaultRunner\<lparr>outputFormat := ''xml''\<rparr>, emptyWorld,
       Some (wrapError ''failed to initialize resrouce printer: xml is not a supported output format''
         (errorString ''xml is not a supported output format'')))"
  using unsupported_format_fails_first [of "defaultRunner\<lparr>outputFormat := ''xml''\<rparr>" testEnv emptyWorld]
  by simp

subsection \<open>Fetching the Ingresses\<close>

text \<open>
  Claim C5. When the acquisition succeeds with an empty list, from the file or from the
  cluster, \<open>getIngessList\<close> fails with the error \<open>No resources found\<close>; when the
  namespace filter is not empty the message goes on with \<open>in\<close>, the filter and
  \<open>namespace\<close>, and when it is empty the message is those three words alone.
\<close>

theorem getIngessList_no_resources:
  assumes "(file \<noteq> '''' \<and> ConstructIngressesFromFile env file nsFilter = ([], None)) \<or>
           (file = '''' \<and> GetConfig env = None \<and> clientNew env = None \<and>
            ConstructIngressesFromCluster env nsFilter = ([], None))"
  shows "snd (getIngessList env nsFilter file w) =
           Inl (errorString
             (if nsFilter = '''' then ''No resources found''
              else ''No resources found in '' @ nsFilter @ '' namespace''))"
  using assms by (auto simp add: getIngessList_def)

theorem getIngessList_no_resources_witness:
  "''input-file.yaml'' \<noteq> '''' \<and>
   ConstructIngressesFromFile testEnv ''input-file.yaml'' ''namespace3'' = ([], None) \<and>
   snd (getIngessList testEnv ''namespace3'' ''input-file.yaml'' emptyWorld) =
     Inl (errorString ''No resources found in namespace3 namespace'') \<and>
   GetConfig testEnv = None \<and> clientNew testEnv = None \<and>
   ConstructIngressesFromCluster testEnv '''' = ([], None) \<and>
   snd (getIngessList testEnv '''' '''' emptyWorld) = Inl (errorString ''No resources found'')"
  using getIngessList_no_resources [of "''input-file.yaml''" testEnv "''namespace3''" emptyWorld]
    getIngessList_no_resources [of "''''" testEnv "''''" emptyWorld]
  by (simp add: testEnv_def ingress1_def ingress2_def ingressNoNamespace_def)

subsection \<open>Rendering\<close>

text \<open>
  The two loops of \<open>outputResult\<close> together are one pass over the gateways followed by
  the routes: the printer is handed every record in that order, and the standard output
  grows by the rendering of that sequence.
\<close>

lemma printOne_eq:
  "printOne env p w obj =
     (notePrinted p obj,
      w\<lparr>stdout := stdout w @ spec_rendering env p [obj], calls := calls w @ [PrintObjCall obj]\<rparr>)"
  by (cases "PrintObj env p obj")
     (simp add: printOne_def written_def called_def split: option.split)

lemma spec_rendering_append:
  "spec_rendering env p (xs @ ys) =
     spec_rendering env p xs @ spec_rendering env (foldl notePrinted p xs) ys"
  by (induction xs arbitrary: p) simp_all

lemma printGateways_eq:
  "printGateways env p w gs =
     (foldl notePrinted p (map GatewayObj gs),
      w\<lparr>stdout := stdout w @ spec_rendering env p (map GatewayObj gs),
        calls := calls w @ map PrintObjCall (map GatewayObj gs)\<rparr>)"
proof (induction gs arbitrary: p w)
  case Nil
  show ?case by simp
next
  case (Cons g gs)
  show ?case by (simp add: printOne_eq Cons.IH)
qed

lemma printHTTPRoutes_eq:
  "printHTTPRoutes env p w rs =
     (foldl notePrinted p (map HTTPRouteObj rs),
      w\<lparr>stdout := stdout w @ spec_rendering env p (map HTTPRouteObj rs),
        calls := calls w @ map PrintObjCall (map HTTPRouteObj rs)\<rparr>)"
proof (induction rs arbitrary: p w)
  case Nil
  show ?case by simp
next
  case (Cons r rs)
  show ?case by (simp add: printOne_eq Cons.IH)
qed

lemma outputResult_eq:
  assumes "resourcePrinter pr = Some p"
  shows "outputResult env pr w httpRoutes gateways =
     Some (pr\<lparr>resourcePrinter := Some (foldl notePrinted p (spec_order httpRoutes gateways))\<rparr>,
           w\<lparr>stdout := stdout w @ spec_rendering env p (spec_order httpRoutes gateways),
             calls := calls w @ map PrintObjCall (spec_order httpRoutes gateways)\<rparr>)"
  using assms
  by (simp add: outputResult_def printGateways_eq printHTTPRoutes_eq spec_rendering_append
      spec_order_def)

text \<open>
  Claim C7. With an initialised printer, \<open>outputResult\<close> hands the printer every gateway,
  in the order given, and then every route, in the order given, and the standard output
  grows by the rendering of the gateways followed by the rendering of the routes. The
  result is a function of the two lists, the printer and what was written before.
\<close>

theorem outputResult_gateways_then_routes:
  assumes "resourcePrinter pr = Some p"
  shows "\<exists>pr' w'. outputResult env pr w httpRoutes gateways = Some (pr', w') \<and>
     calls w' = calls w @ map (PrintObjCall \<circ> GatewayObj) gateways
                        @ map (PrintObjCall \<circ> HTTPRouteObj) httpRoutes \<and>
     stdout w' = stdout w @ spec_rendering env p (map GatewayObj gateways)
                          @ spec_rendering env (foldl notePrinted p (map GatewayObj gateways))
                              (map HTTPRouteObj httpRoutes)"
  using assms by (simp add: outputResult_eq spec_rendering_append spec_order_def)

theorem outputResult_gateways_then_routes_witness:
  "resourcePrinter (defaultRunner\<lparr>resourcePrinter := Some (YAMLPrinter [])\<rparr>) = Some (YAMLPrinter []) \<and>
   (\<exists>pr' w'. outputResult testEnv (defaultRunner\<lparr>resourcePrinter := Some (YAMLPrinter [])\<rparr>) emptyWorld
                [toHTTPRoute ingress1] [toGateway ingress1, toGateway ingressNoNamespace] = Some (pr', w') \<and>
      calls w' = [PrintObjCall (GatewayObj (toGateway ingress1)),
                  PrintObjCall (GatewayObj (toGateway ingressNoNamespace)),
                  PrintObjCall (HTTPRouteObj (toHTTPRoute ingress1))] \<and>
      stdout w' = ''ingress1'' @ newline @ ''---'' @ newline @ ''ingress-no-namespace'' @ newline @
                  ''---'' @ newline @ ''ingress1'' @ newline)"
  using outputResult_gateways_then_routes
    [of "defaultRunner\<lparr>resourcePrinter := Some (YAMLPrinter [])\<rparr>" "YAMLPrinter []" testEnv emptyWorld
        "[toHTTPRoute ingress1]" "[toGateway ingress1, toGateway ingressNoNamespace]"]
  by (simp add: testEnv_def emptyWorld_def toGateway_def toHTTPRoute_def ingress1_def
      ingressNoNamespace_def newline_def)

subsection \<open>What the steps before the conversion do to the runner and the world\<close>

lemma initializeResourcePrinter_ok:
  assumes "initializeResourcePrinter pr = (pr1, None)"
  shows "\<exists>p. pr1 = pr\<lparr>resourcePrinter := Some p\<rparr> \<and> (p = YAMLPrinter [] \<or> p = JSONPrinter [])"
  using assms by (auto simp add: initializeResourcePrinter_def split: if_splits)

lemma initializeNamespaceFilter_runner:
  assumes "initializeNamespaceFilter env pr w = (pr', w', e)"
  shows "\<exists>f. pr' = pr\<lparr>namespaceFilter := f\<rparr>"
proof (cases "e")
  case None
  with assms show ?thesis
    by (cases "kubeConfigNamespace env")
       (auto simp add: initializeNamespaceFilter_def getNamespaceInCurrentContext_def
          split: if_splits)
next
  case (Some a)
  with assms have "pr' = pr"
    by (cases "kubeConfigNamespace env")
       (auto simp add: initializeNamespaceFilter_def getNamespaceInCurrentContext_def
          split: if_splits)
  then have "pr' = pr\<lparr>namespaceFilter := namespaceFilter pr\<rparr>" by simp
  then show ?thesis by blast
qed

lemma initializeNamespaceFilter_world:
  assumes "initializeNamespaceFilter env pr w = (pr', w', e)"
  shows "w' = w \<or> w' = called NamespaceLookup w"
  using assms
  by (cases "kubeConfigNamespace env")
     (auto simp add: initializeNamespaceFilter_def getNamespaceInCurrentContext_def
        split: if_splits)

lemma getIngessList_world:
  assumes "getIngessList env nsFilter file w = (w', r)"
  shows "stdout w' = stdout w \<and>
         filter isPrintObjCall (calls w') = filter isPrintObjCall (calls w)"
  using assms
  by (cases "ConstructIngressesFromFile env file nsFilter";
      cases "ConstructIngressesFromCluster env nsFilter")
     (auto simp add: getIngessList_def called_def Let_def split: if_splits option.splits)

subsection \<open>Conversion errors\<close>

text \<open>
  The message of the aggregated error: one newline for each error, the line that counts
  the errors, and then every error's message after the separator \<open># \<close>.
\<close>

lemma Error_appendErrors:
  "Error (appendErrors errMsg errs) =
     replicate (length errs) (CHR 0x0A) @ Error errMsg @ concat (map (\<lambda>e. '' # '' @ Error e) errs)"
proof (induction errs arbitrary: errMsg)
  case Nil
  show ?case by simp
next
  case (Cons err errs)
  have "replicate (length errs) (CHR 0x0A) @ newline = CHR 0x0A # replicate (length errs) (CHR 0x0A)"
    unfolding newline_def by (rule replicate_append_same)
  then show ?case
    by (simp add: Cons.IH del: replicate_Suc) (simp add: append_assoc [symmetric] del: append_assoc)
qed

lemma Error_aggregateErrors:
  "Error (aggregateErrors errList) =
     replicate (length errList) (CHR 0x0A) @ newline @ ''# Encountered '' @
     formatInt (length errList) @ '' errors'' @ concat (map (\<lambda>e. '' # '' @ Error e) errList)"
  by (simp add: aggregateErrors_def Error_appendErrors)

lemma sublist_aggregateErrors:
  assumes "e \<in> set errList"
  shows "sublist (Error e) (Error (aggregateErrors errList))"
proof -
  obtain xs ys where split: "errList = xs @ e # ys"
    using assms by (meson split_list)
  let ?f = "\<lambda>e. '' # '' @ Error e"
  let ?head = "replicate (length errList) (CHR 0x0A) @ newline @ ''# Encountered '' @
     formatInt (length errList) @ '' errors''"
  have "concat (map ?f errList) = (concat (map ?f xs) @ '' # '') @ Error e @ concat (map ?f ys)"
    by (simp add: split)
  then have "Error (aggregateErrors errList) =
      (?head @ concat (map ?f xs) @ '' # '') @ Error e @ concat (map ?f ys)"
    by (simp add: Error_aggregateErrors)
  then show ?thesis
    by (metis sublist_appendI)
qed

text \<open>
  Claim C1. When the run reaches the conversion and the conversion returns at least one
  error, \<open>PrintGatewaysAndHTTPRoutes\<close> returns one error whose message contains the
  message of every conversion error; nothing has been written to the standard output
  and no record has been handed to the printer, so \<open>outputResult\<close> was not called.
\<close>

theorem conversion_errors_abort_the_run:
  assumes "initializeResourcePrinter pr = (pr1, None)"
    and "initializeNamespaceFilter env pr1 w = (pr2, w2, None)"
    and "getIngessList env (namespaceFilter pr2) (inputFile pr2) w2 = (w3, Inr items)"
    and "Ingresses2GatewaysAndHTTPRoutes env items = (httpRoutes, gateways, errList)"
    and "errList \<noteq> []"
  shows "PrintGatewaysAndHTTPRoutes env pr w =
           Some (pr2, called (Conversion items) w3, Some (aggregateErrors errList)) \<and>
         (\<forall>e \<in> set errList. sublist (Error e) (Error (aggregateErrors errList))) \<and>
         stdout (called (Conversion items) w3) = stdout w \<and>
         filter isPrintObjCall (calls (called (Conversion items) w3)) =
           filter isPrintObjCall (calls w)"
proof -
  have run: "PrintGatewaysAndHTTPRoutes env pr w =
      Some (pr2, called (Conversion items) w3, Some (aggregateErrors errList))"
    using assms by (simp add: PrintGatewaysAndHTTPRoutes_def)
  have "w2 = w \<or> w2 = called NamespaceLookup w"
    using assms(2) by (rule initializeNamespaceFilter_world)
  then have w2: "stdout w2 = stdout w \<and>
      filter isPrintObjCall (calls w2) = filter isPrintObjCall (calls w)"
    by (auto simp add: called_def)
  have w3: "stdout w3 = stdout w2 \<and>
      filter isPrintObjCall (calls w3) = filter isPrintObjCall (calls w2)"
    using assms(3) by (rule getIngessList_world)
  have w4: "stdout (called (Conversion items) w3) = stdout w \<and>
      filter isPrintObjCall (calls (called (Conversion items) w3)) =
        filter isPrintObjCall (calls w)"
    using w2 w3 by (simp add: called_def)
  show ?thesis
    using run w4 sublist_aggregateErrors by blast
qed

theorem conversion_errors_abort_the_run_witness:
  "initializeResourcePrinter (defaultRunner\<lparr>inputFile := ''input-file.yaml''\<rparr>) =
     (defaultRunner\<lparr>inputFile := ''input-file.yaml'', resourcePrinter := Some (YAMLPrinter [])\<rparr>, None) \<and>
   initializeNamespaceFilter failingConversionEnv
       (defaultRunner\<lparr>inputFile := ''input-file.yaml'', resourcePrinter := Some (YAMLPrinter [])\<rparr>)
       emptyWorld =
     (defaultRunner\<lparr>inputFile := ''input-file.yaml'', resourcePrinter := Some (YAMLPrinter [])\<rparr>,
      called NamespaceLookup emptyWorld, None) \<and>
   getIngessList failingConversionEnv '''' ''input-file.yaml'' (called NamespaceLookup emptyWorld) =
     (called (ReadInputFile ''input-file.yaml'' '''') (called NamespaceLookup emptyWorld),
      Inr [ingress1, ingress2, ingressNoNamespace]) \<and>
   Ingresses2GatewaysAndHTTPRoutes failingConversionEnv [ingress1, ingress2, ingressNoNamespace] =
     ([], [], [errorString ''first failure'', errorString ''second failure'']) \<and>
   PrintGatewaysAndHTTPRoutes failingConversionEnv (defaultRunner\<lparr>inputFile := ''input-file.yaml''\<rparr>)
       emptyWorld =
     Some (defaultRunner\<lparr>inputFile := ''input-file.yaml'', resourcePrinter := Some (YAMLPrinter [])\<rparr>,
           \<lparr>stdout = '''',
            calls = [NamespaceLookup, ReadInputFile ''input-file.yaml'' '''',
                     Conversion [ingress1, ingress2, ingressNoNamespace]]\<rparr>,
           Some (aggregateErrors [errorString ''first failure'', errorString ''second failure''])) \<and>
   Error (aggregateErrors [errorString ''first failure'', errorString ''second failure'']) =
     newline @ newline @ newline @ ''# Encountered 2 errors # first failure # second failure'' \<and>
   sublist ''first failure''
     (Error (aggregateErrors [errorString ''first failure'', errorString ''second failure''])) \<and>
   sublist ''second failure''
     (Error (aggregateErrors [errorString ''first failure'', errorString ''second failure'']))"
proof -
  let ?pr = "defaultRunner\<lparr>inputFile := ''input-file.yaml''\<rparr>"
  let ?pr1 = "defaultRunner\<lparr>inputFile := ''input-file.yaml'', resourcePrinter := Some (YAMLPrinter [])\<rparr>"
  let ?w2 = "called NamespaceLookup emptyWorld"
  let ?w3 = "called (ReadInputFile ''input-file.yaml'' '''') ?w2"
  let ?items = "[ingress1, ingress2, ingressNoNamespace]"
  let ?errs = "[errorString ''first failure'', errorString ''second failure'']"
  have h1: "initializeResourcePrinter ?pr = (?pr1, None)"
    by (simp add: initializeResourcePrinter_def defaultRunner_def)
  have h2: "initializeNamespaceFilter failingConversionEnv ?pr1 emptyWorld = (?pr1, ?w2, None)"
    by (simp add: initializeNamespaceFilter_def getNamespaceInCurrentContext_def
        failingConversionEnv_def testEnv_def defaultRunner_def)
  have h3: "getIngessList failingConversionEnv (namespaceFilter ?pr1) (inputFile ?pr1) ?w2 =
      (?w3, Inr ?items)"
    by (simp add: getIngessList_def failingConversionEnv_def testEnv_def defaultRunner_def)
  have h4: "Ingresses2GatewaysAndHTTPRoutes failingConversionEnv ?items = ([], [], ?errs)"
    by (simp add: failingConversionEnv_def)
  have h5: "?errs \<noteq> []" by simp
  have msg: "Error (aggregateErrors ?errs) =
      newline @ newline @ newline @ ''# Encountered 2 errors # first failure # second failure''"
    by (simp add: aggregateErrors_def formatInt.simps newline_def)
  have w: "called (Conversion ?items) ?w3 =
      \<lparr>stdout = '''', calls = [NamespaceLookup, ReadInputFile ''input-file.yaml'' '''', Conversion ?items]\<rparr>"
    by (simp add: called_def emptyWorld_def)
  have nf: "namespaceFilter ?pr1 = ''''" "inputFile ?pr1 = ''input-file.yaml''"
    by (simp_all add: defaultRunner_def)
  show ?thesis
    using conversion_errors_abort_the_run [OF h1 h2 h3 h4 h5] h1 h2 h3 h4 msg
    unfolding w nf by simp
qed

subsection \<open>Render failures\<close>

text \<open>
  A record on which \<^verbatim>\<open>PrintObj\<close> fails splits the rendering in three: what was rendered
  up to the failure, the diagnostic line, and the rendering of the records that follow.
\<close>

lemma spec_rendering_failure:
  assumes "i < length objs"
    and "snd (PrintObj env (foldl notePrinted p (take i objs)) (objs ! i)) = Some e"
  shows "spec_rendering env p objs =
     (spec_rendering env p (take i objs) @
        fst (PrintObj env (foldl notePrinted p (take i objs)) (objs ! i))) @
     printError (objName (objs ! i)) e @
     spec_rendering env (foldl notePrinted p (take (Suc i) objs)) (drop (Suc i) objs)"
proof -
  have "objs = take i objs @ objs ! i # drop (Suc i) objs"
    using assms(1) by (rule id_take_nth_drop)
  then have "spec_rendering env p objs =
      spec_rendering env p (take i objs @ objs ! i # drop (Suc i) objs)"
    by simp
  also have "\<dots> = spec_rendering env p (take i objs) @
      spec_rendering env (foldl notePrinted p (take i objs)) (objs ! i # drop (Suc i) objs)"
    by (rule spec_rendering_append)
  finally show ?thesis
    using assms by (simp add: take_Suc_conv_app_nth)
qed

text \<open>
  A run whose conversion reports no error renders the converted records with the fresh
  printer and returns no error.
\<close>

lemma followedBy_emptyWorld [simp]: "followedBy w emptyWorld = w"
  by (simp add: followedBy_def emptyWorld_def)

lemma followedBy_called: "called c (followedBy w d) = followedBy w (called c d)"
  by (simp add: followedBy_def called_def)

lemma followedBy_assoc: "followedBy (followedBy w a) b = followedBy w (followedBy a b)"
  by (simp add: followedBy_def)

lemma outputResult_followedBy:
  assumes "resourcePrinter pr = Some p"
  shows "outputResult env pr w httpRoutes gateways =
     Some (pr\<lparr>resourcePrinter := Some (foldl notePrinted p (spec_order httpRoutes gateways))\<rparr>,
           followedBy w \<lparr>stdout = spec_rendering env p (spec_order httpRoutes gateways),
                         calls = map PrintObjCall (spec_order httpRoutes gateways)\<rparr>)"
  by (simp add: outputResult_eq [OF assms] followedBy_def)

lemma run_without_conversion_errors:
  assumes "initializeResourcePrinter pr = (pr1, None)"
    and "initializeNamespaceFilter env pr1 w = (pr2, w2, None)"
    and "getIngessList env (namespaceFilter pr2) (inputFile pr2) w2 = (w3, Inr items)"
    and "Ingresses2GatewaysAndHTTPRoutes env items = (httpRoutes, gateways, [])"
  shows "\<exists>p. resourcePrinter pr2 = Some p \<and>
     PrintGatewaysAndHTTPRoutes env pr w =
       Some (pr2\<lparr>resourcePrinter := Some (foldl notePrinted p (spec_order httpRoutes gateways))\<rparr>,
             followedBy (called (Conversion items) w3)
               \<lparr>stdout = spec_rendering env p (spec_order httpRoutes gateways),
                calls = map PrintObjCall (spec_order httpRoutes gateways)\<rparr>,
             None)"
proof -
  obtain p where p: "pr1 = pr\<lparr>resourcePrinter := Some p\<rparr>"
    using initializeResourcePrinter_ok [OF assms(1)] by blast
  obtain f where "pr2 = pr1\<lparr>namespaceFilter := f\<rparr>"
    using initializeNamespaceFilter_runner [OF assms(2)] by blast
  with p have printer: "resourcePrinter pr2 = Some p" by simp
  have "PrintGatewaysAndHTTPRoutes env pr w =
      (case outputResult env pr2 (called (Conversion items) w3) httpRoutes gateways of
         None \<Rightarrow> None | Some (pr3, w5) \<Rightarrow> Some (pr3, w5, None))"
    using assms by (simp add: PrintGatewaysAndHTTPRoutes_def)
  then show ?thesis
    using printer by (simp add: outputResult_eq [OF printer] followedBy_def)
qed

text \<open>
  Claim C8. When \<^verbatim>\<open>PrintObj\<close> fails on the record at position \<open>i\<close> of the gateways
  followed by the routes, \<open>outputResult\<close> writes, right after what that call wrote, the
  diagnostic line with the name of that record, and then renders the records that
  follow; every record is handed to the printer, whichever of them fail. And a run that
  reaches the rendering returns no error, whatever \<^verbatim>\<open>PrintObj\<close> returns: its result is
  the result of \<open>outputResult\<close> with a nil error.
\<close>

theorem render_failures_are_not_fatal:
  "(resourcePrinter pr = Some p \<and> i < length (spec_order httpRoutes gateways) \<and>
    snd (PrintObj env (foldl notePrinted p (take i (spec_order httpRoutes gateways)))
          (spec_order httpRoutes gateways ! i)) = Some e \<longrightarrow>
      (\<exists>pr' w'. outputResult env pr w httpRoutes gateways = Some (pr', w') \<and>
         calls w' = calls w @ map PrintObjCall (spec_order httpRoutes gateways) \<and>
         stdout w' = stdout w @
           (spec_rendering env p (take i (spec_order httpRoutes gateways)) @
            fst (PrintObj env (foldl notePrinted p (take i (spec_order httpRoutes gateways)))
                  (spec_order httpRoutes gateways ! i))) @
           printError (objName (spec_order httpRoutes gateways ! i)) e @
           spec_rendering env (foldl notePrinted p (take (Suc i) (spec_order httpRoutes gateways)))
             (drop (Suc i) (spec_order httpRoutes gateways)))) \<and>
   (initializeResourcePrinter pr0 = (pr1, None) \<and>
    initializeNamespaceFilter env pr1 w0 = (pr2, w2, None) \<and>
    getIngessList env (namespaceFilter pr2) (inputFile pr2) w2 = (w3, Inr items) \<and>
    Ingresses2GatewaysAndHTTPRoutes env items = (routes, gws, []) \<longrightarrow>
      (\<exists>pr3 w5. outputResult env pr2 (called (Conversion items) w3) routes gws = Some (pr3, w5) \<and>
         PrintGatewaysAndHTTPRoutes env pr0 w0 = Some (pr3, w5, None)))"
proof (intro conjI impI)
  assume a: "resourcePrinter pr = Some p \<and> i < length (spec_order httpRoutes gateways) \<and>
    snd (PrintObj env (foldl notePrinted p (take i (spec_order httpRoutes gateways)))
          (spec_order httpRoutes gateways ! i)) = Some e"
  let ?objs = "spec_order httpRoutes gateways"
  have "spec_rendering env p ?objs =
     (spec_rendering env p (take i ?objs) @
        fst (PrintObj env (foldl notePrinted p (take i ?objs)) (?objs ! i))) @
     printError (objName (?objs ! i)) e @
     spec_rendering env (foldl notePrinted p (take (Suc i) ?objs)) (drop (Suc i) ?objs)"
    using a by (intro spec_rendering_failure) simp_all
  then show "\<exists>pr' w'. outputResult env pr w httpRoutes gateways = Some (pr', w') \<and>
         calls w' = calls w @ map PrintObjCall ?objs \<and>
         stdout w' = stdout w @
           (spec_rendering env p (take i ?objs) @
            fst (PrintObj env (foldl notePrinted p (take i ?objs)) (?objs ! i))) @
           printError (objName (?objs ! i)) e @
           spec_rendering env (foldl notePrinted p (take (Suc i) ?objs)) (drop (Suc i) ?objs)"
    using a by (simp add: outputResult_eq)
next
  assume b: "initializeResourcePrinter pr0 = (pr1, None) \<and>
    initializeNamespaceFilter env pr1 w0 = (pr2, w2, None) \<and>
    getIngessList env (namespaceFilter pr2) (inputFile pr2) w2 = (w3, Inr items) \<and>
    Ingresses2GatewaysAndHTTPRoutes env items = (routes, gws, [])"
  then obtain p where p: "resourcePrinter pr2 = Some p"
    and run: "PrintGatewaysAndHTTPRoutes env pr0 w0 =
       Some (pr2\<lparr>resourcePrinter := Some (foldl notePrinted p (spec_order routes gws))\<rparr>,
             followedBy (called (Conversion items) w3)
               \<lparr>stdout = spec_rendering env p (spec_order routes gws),
                calls = map PrintObjCall (spec_order routes gws)\<rparr>,
             None)"
    using run_without_conversion_errors [of pr0 pr1 env w0 pr2 w2 w3 items routes gws] by blast
  show "\<exists>pr3 w5. outputResult env pr2 (called (Conversion items) w3) routes gws = Some (pr3, w5) \<and>
         PrintGatewaysAndHTTPRoutes env pr0 w0 = Some (pr3, w5, None)"
    using run by (simp add: outputResult_eq [OF p] followedBy_def)
qed

theorem render_failures_are_not_fatal_witness:
  "resourcePrinter (defaultRunner\<lparr>resourcePrinter := Some (YAMLPrinter [])\<rparr>) = Some (YAMLPrinter []) \<and>
   (1::nat) < length (spec_order [toHTTPRoute ingress1]
                        [toGateway ingress1, toGateway ingress2, toGateway ingressNoNamespace]) \<and>
   snd (PrintObj testEnv (YAMLPrinter [GatewayObj (toGateway ingress1)])
          (GatewayObj (toGateway ingress2))) = Some printFailure \<and>
   (\<exists>pr' w'. outputResult testEnv (defaultRunner\<lparr>resourcePrinter := Some (YAMLPrinter [])\<rparr>) emptyWorld
                [toHTTPRoute ingress1]
                [toGateway ingress1, toGateway ingress2, toGateway ingressNoNamespace] = Some (pr', w') \<and>
      calls w' = [PrintObjCall (GatewayObj (toGateway ingress1)),
                  PrintObjCall (GatewayObj (toGateway ingress2)),
                  PrintObjCall (GatewayObj (toGateway ingressNoNamespace)),
                  PrintObjCall (HTTPRouteObj (toHTTPRoute ingress1))] \<and>
      stdout w' = ''ingress1'' @ newline @
                  ''# Error printing ingress2 HTTPRoute: unable to marshal'' @ newline @
                  ''---'' @ newline @ ''ingress-no-namespace'' @ newline @
                  ''---'' @ newline @ ''ingress1'' @ newline) \<and>
   initializeResourcePrinter (defaultRunner\<lparr>inputFile := ''input-file.yaml'', namespace := ''namespace2''\<rparr>) =
     (defaultRunner\<lparr>inputFile := ''input-file.yaml'', namespace := ''namespace2'',
        resourcePrinter := Some (YAMLPrinter [])\<rparr>, None) \<and>
   initializeNamespaceFilter testEnv
       (defaultRunner\<lparr>inputFile := ''input-file.yaml'', namespace := ''namespace2'',
          resourcePrinter := Some (YAMLPrinter [])\<rparr>) emptyWorld =
     (defaultRunner\<lparr>inputFile := ''input-file.yaml'', namespace := ''namespace2'',
        resourcePrinter := Some (YAMLPrinter []), namespaceFilter := ''namespace2''\<rparr>, emptyWorld, None) \<and>
   getIngessList testEnv ''namespace2'' ''input-file.yaml'' emptyWorld =
     (called (ReadInputFile ''input-file.yaml'' ''namespace2'') emptyWorld, Inr [ingress2]) \<and>
   Ingresses2GatewaysAndHTTPRoutes testEnv [ingress2] = ([toHTTPRoute ingress2], [toGateway ingress2], []) \<and>
   (\<exists>pr3 w5. PrintGatewaysAndHTTPRoutes testEnv
                (defaultRunner\<lparr>inputFile := ''input-file.yaml'', namespace := ''namespace2''\<rparr>) emptyWorld =
              Some (pr3, w5, None) \<and>
      stdout w5 = ''# Error printing ingress2 HTTPRoute: unable to marshal'' @ newline @
                  ''# Error printing ingress2 HTTPRoute: unable to marshal'' @ newline)"
proof -
  let ?r = "defaultRunner\<lparr>resourcePrinter := Some (YAMLPrinter [])\<rparr>"
  let ?routes = "[toHTTPRoute ingress1]"
  let ?gws = "[toGateway ingress1, toGateway ingress2, toGateway ingressNoNamespace]"
  let ?pr0 = "defaultRunner\<lparr>inputFile := ''input-file.yaml'', namespace := ''namespace2''\<rparr>"
  let ?pr1 = "defaultRunner\<lparr>inputFile := ''input-file.yaml'', namespace := ''namespace2'',
        resourcePrinter := Some (YAMLPrinter [])\<rparr>"
  let ?pr2 = "defaultRunner\<lparr>inputFile := ''input-file.yaml'', namespace := ''namespace2'',
        resourcePrinter := Some (YAMLPrinter []), namespaceFilter := ''namespace2''\<rparr>"
  let ?w3 = "called (ReadInputFile ''input-file.yaml'' ''namespace2'') emptyWorld"
  note defs = testEnv_def defaultRunner_def emptyWorld_def toGateway_def toHTTPRoute_def
    ingress1_def ingress2_def ingressNoNamespace_def spec_order_def newline_def
    printError_def printFailure_def
  have a1: "resourcePrinter ?r = Some (YAMLPrinter [])" by simp
  have a2: "(1::nat) < length (spec_order ?routes ?gws)" by (simp add: spec_order_def)
  have a3: "snd (PrintObj testEnv (YAMLPrinter [GatewayObj (toGateway ingress1)])
          (GatewayObj (toGateway ingress2))) = Some printFailure"
    by (simp add: defs)
  have b1: "initializeResourcePrinter ?pr0 = (?pr1, None)"
    by (simp add: initializeResourcePrinter_def defaultRunner_def)
  have b2: "initializeNamespaceFilter testEnv ?pr1 emptyWorld = (?pr2, emptyWorld, None)"
    by (simp add: initializeNamespaceFilter_def defaultRunner_def)
  have b3: "getIngessList testEnv ''namespace2'' ''input-file.yaml'' emptyWorld = (?w3, Inr [ingress2])"
    by (simp add: getIngessList_def defs)
  have b4: "Ingresses2GatewaysAndHTTPRoutes testEnv [ingress2] =
      ([toHTTPRoute ingress2], [toGateway ingress2], [])"
    by (simp add: testEnv_def)
  have nf: "namespaceFilter ?pr2 = ''namespace2''" "inputFile ?pr2 = ''input-file.yaml''"
    by (simp_all add: defaultRunner_def)
  have part1: "\<exists>pr' w'. outputResult testEnv ?r emptyWorld ?routes ?gws = Some (pr', w') \<and>
      calls w' = [PrintObjCall (GatewayObj (toGateway ingress1)),
                  PrintObjCall (GatewayObj (toGateway ingress2)),
                  PrintObjCall (GatewayObj (toGateway ingressNoNamespace)),
                  PrintObjCall (HTTPRouteObj (toHTTPRoute ingress1))] \<and>
      stdout w' = ''ingress1'' @ newline @
                  ''# Error printing ingress2 HTTPRoute: unable to marshal'' @ newline @
                  ''---'' @ newline @ ''ingress-no-namespace'' @ newline @
                  ''---'' @ newline @ ''ingress1'' @ newline"
    using render_failures_are_not_fatal
      [where pr = ?r and p = "YAMLPrinter []" and i = 1 and httpRoutes = ?routes and gateways = ?gws
         and env = testEnv and e = printFailure and w = emptyWorld, THEN conjunct1]
    by (simp add: defs)
  have part2: "\<exists>pr3 w5. PrintGatewaysAndHTTPRoutes testEnv ?pr0 emptyWorld = Some (pr3, w5, None) \<and>
      stdout w5 = ''# Error printing ingress2 HTTPRoute: unable to marshal'' @ newline @
                  ''# Error printing ingress2 HTTPRoute: unable to marshal'' @ newline"
  proof -
    have "\<exists>pr3 w5. outputResult testEnv ?pr2 (called (Conversion [ingress2]) ?w3)
              [toHTTPRoute ingress2] [toGateway ingress2] = Some (pr3, w5) \<and>
         PrintGatewaysAndHTTPRoutes testEnv ?pr0 emptyWorld = Some (pr3, w5, None)"
      using render_failures_are_not_fatal
        [where ?pr0.0 = ?pr0 and ?pr1.0 = ?pr1 and ?pr2.0 = ?pr2 and env = testEnv
           and ?w0.0 = emptyWorld and ?w2.0 = emptyWorld and ?w3.0 = ?w3 and items = "[ingress2]"
           and routes = "[toHTTPRoute ingress2]" and gws = "[toGateway ingress2]", THEN conjunct2]
        b1 b2 b3 b4 unfolding nf by blast
    then obtain pr3 w5 where
      out: "outputResult testEnv ?pr2 (called (Conversion [ingress2]) ?w3)
              [toHTTPRoute ingress2] [toGateway ingress2] = Some (pr3, w5)"
      and run: "PrintGatewaysAndHTTPRoutes testEnv ?pr0 emptyWorld = Some (pr3, w5, None)"
      by blast
    have "resourcePrinter ?pr2 = Some (YAMLPrinter [])" by simp
    from out outputResult_eq [OF this, of testEnv "called (Conversion [ingress2]) ?w3"
        "[toHTTPRoute ingress2]" "[toGateway ingress2]"]
    have "stdout w5 = ''# Error printing ingress2 HTTPRoute: unable to marshal'' @ newline @
                  ''# Error printing ingress2 HTTPRoute: unable to marshal'' @ newline"
      by (auto simp add: defs called_def)
    with run show ?thesis by blast
  qed
  show ?thesis
    using a1 a2 a3 part1 b1 b2 b3 b4 part2 by blast
qed

subsection \<open>Running twice\<close>

text \<open>
  The effects of a step on the world do not depend on the world it starts in, and the
  filter that was in the runner before does not matter.
\<close>

lemma initializeNamespaceFilter_frame:
  "initializeNamespaceFilter env (pr\<lparr>namespaceFilter := y\<rparr>) w =
     (case initializeNamespaceFilter env pr emptyWorld of
        (pr', d, None) \<Rightarrow> (pr', followedBy w d, None)
      | (pr', d, Some e) \<Rightarrow> (pr'\<lparr>namespaceFilter := y\<rparr>, followedBy w d, Some e))"
  by (cases "kubeConfigNamespace env")
     (auto simp add: initializeNamespaceFilter_def getNamespaceInCurrentContext_def
        followedBy_called [symmetric] split: option.splits)

lemma getIngessList_frame:
  "getIngessList env nsFilter path w =
     (case getIngessList env nsFilter path emptyWorld of (d, r) \<Rightarrow> (followedBy w d, r))"
  by (cases "ConstructIngressesFromFile env path nsFilter";
      cases "ConstructIngressesFromCluster env nsFilter")
     (auto simp add: getIngessList_def Let_def followedBy_called [symmetric] split: option.splits)

text \<open>
  The effects and the error of a run are those of the run of the same flags in the empty
  world, whatever printer and filter the runner held before; and a run never panics and
  leaves the four flags of the runner as they were.
\<close>

lemma run_frame:
  "map_option snd
     (PrintGatewaysAndHTTPRoutes env (pr\<lparr>resourcePrinter := x, namespaceFilter := y\<rparr>) w) =
   map_option (\<lambda>(pr1, d, e). (followedBy w d, e)) (PrintGatewaysAndHTTPRoutes env pr emptyWorld)"
proof (cases "outputFormat pr = ''yaml'' \<or> outputFormat pr = '''' \<or> outputFormat pr = ''json''")
  case False
  then show ?thesis
    by (simp add: PrintGatewaysAndHTTPRoutes_def initializeResourcePrinter_def)
next
  case True
  define P0 where "P0 = (if outputFormat pr = ''json'' then JSONPrinter [] else YAMLPrinter [])"
  let ?q = "pr\<lparr>resourcePrinter := Some P0\<rparr>"
  have i1: "initializeResourcePrinter (pr\<lparr>resourcePrinter := x, namespaceFilter := y\<rparr>) =
      (?q\<lparr>namespaceFilter := y\<rparr>, None)"
    using True by (auto simp add: initializeResourcePrinter_def P0_def)
  have i2: "initializeResourcePrinter pr = (?q, None)"
    using True by (auto simp add: initializeResourcePrinter_def P0_def)
  obtain pr2 d2 eo where n: "initializeNamespaceFilter env ?q emptyWorld = (pr2, d2, eo)"
    by (cases "initializeNamespaceFilter env ?q emptyWorld") auto
  have n': "initializeNamespaceFilter env (?q\<lparr>namespaceFilter := y\<rparr>) w =
      (case eo of None \<Rightarrow> (pr2, followedBy w d2, None)
       | Some e \<Rightarrow> (pr2\<lparr>namespaceFilter := y\<rparr>, followedBy w d2, Some e))"
    using initializeNamespaceFilter_frame [where env = env and pr = ?q and y = y and w = w] n
    by simp
  show ?thesis
  proof (cases eo)
    case (Some e)
    then show ?thesis
      by (simp add: PrintGatewaysAndHTTPRoutes_def i1 i2 n n')
  next
    case None
    obtain f where "pr2 = ?q\<lparr>namespaceFilter := f\<rparr>"
      using initializeNamespaceFilter_runner [OF n] by blast
    then have rp2: "resourcePrinter pr2 = Some P0" by simp
    obtain d3 r where g: "getIngessList env (namespaceFilter pr2) (inputFile pr2) emptyWorld = (d3, r)"
      by (cases "getIngessList env (namespaceFilter pr2) (inputFile pr2) emptyWorld") auto
    have g1: "getIngessList env (namespaceFilter pr2) (inputFile pr2) (followedBy w d2) =
        (followedBy (followedBy w d2) d3, r)"
      using getIngessList_frame [where env = env and nsFilter = "namespaceFilter pr2"
          and path = "inputFile pr2" and w = "followedBy w d2"] g
      by simp
    have g2: "getIngessList env (namespaceFilter pr2) (inputFile pr2) d2 = (followedBy d2 d3, r)"
      using getIngessList_frame [where env = env and nsFilter = "namespaceFilter pr2"
          and path = "inputFile pr2" and w = d2] g
      by simp
    show ?thesis
    proof (cases r)
      case (Inl e)
      then show ?thesis
        by (simp add: PrintGatewaysAndHTTPRoutes_def i1 i2 n n' None g1 g2 followedBy_assoc)
    next
      case (Inr items)
      obtain httpRoutes gateways errList where
        c: "Ingresses2GatewaysAndHTTPRoutes env items = (httpRoutes, gateways, errList)"
        by (cases "Ingresses2GatewaysAndHTTPRoutes env items") auto
      show ?thesis
      proof (cases "errList = []")
        case False
        then show ?thesis
          by (simp add: PrintGatewaysAndHTTPRoutes_def i1 i2 n n' None g1 g2 Inr c
              followedBy_assoc followedBy_called)
      next
        case True
        then show ?thesis
          by (simp add: PrintGatewaysAndHTTPRoutes_def i1 i2 n n' None g1 g2 Inr c
              outputResult_followedBy [OF rp2] followedBy_assoc followedBy_called)
      qed
    qed
  qed
qed

lemma run_returns:
  "\<exists>x y d e. PrintGatewaysAndHTTPRoutes env pr w =
     Some (pr\<lparr>resourcePrinter := x, namespaceFilter := y\<rparr>, d, e)"
proof (cases "outputFormat pr = ''yaml'' \<or> outputFormat pr = '''' \<or> outputFormat pr = ''json''")
  case False
  then have "PrintGatewaysAndHTTPRoutes env pr w =
      Some (pr\<lparr>resourcePrinter := resourcePrinter pr, namespaceFilter := namespaceFilter pr\<rparr>, w,
        Some (wrapError (''failed to initialize resrouce printer: '' @ outputFormat pr @
                '' is not a supported output format'')
             (errorString (outputFormat pr @ '' is not a supported output format''))))"
    by (simp add: PrintGatewaysAndHTTPRoutes_def initializeResourcePrinter_def)
  then show ?thesis by blast
next
  case True
  define P0 where "P0 = (if outputFormat pr = ''json'' then JSONPrinter [] else YAMLPrinter [])"
  let ?q = "pr\<lparr>resourcePrinter := Some P0\<rparr>"
  have i: "initializeResourcePrinter pr = (?q, None)"
    using True by (auto simp add: initializeResourcePrinter_def P0_def)
  obtain pr2 w2 eo where n: "initializeNamespaceFilter env ?q w = (pr2, w2, eo)"
    by (cases "initializeNamespaceFilter env ?q w") auto
  obtain f where pr2: "pr2 = pr\<lparr>resourcePrinter := Some P0, namespaceFilter := f\<rparr>"
    using initializeNamespaceFilter_runner [OF n] by blast
  then have rp2: "resourcePrinter pr2 = Some P0" by simp
  show ?thesis
  proof (cases eo)
    case (Some e)
    then have "PrintGatewaysAndHTTPRoutes env pr w =
        Some (pr2, w2, Some (wrapError (''failed to initialize namespace filter: '' @ Error e) e))"
      by (simp add: PrintGatewaysAndHTTPRoutes_def i n)
    then show ?thesis unfolding pr2 by blast
  next
    case None
    obtain w3 r where g: "getIngessList env (namespaceFilter pr2) (inputFile pr2) w2 = (w3, r)"
      by (cases "getIngessList env (namespaceFilter pr2) (inputFile pr2) w2") auto
    show ?thesis
    proof (cases r)
      case (Inl e)
      then have "PrintGatewaysAndHTTPRoutes env pr w =
          Some (pr2, w3, Some (wrapError (''failed to get ingresses from source: '' @ Error e) e))"
        by (simp add: PrintGatewaysAndHTTPRoutes_def i n None g)
      then show ?thesis unfolding pr2 by blast
    next
      case (Inr items)
      obtain httpRoutes gateways errList where
        c: "Ingresses2GatewaysAndHTTPRoutes env items = (httpRoutes, gateways, errList)"
        by (cases "Ingresses2GatewaysAndHTTPRoutes env items") auto
      show ?thesis
      proof (cases "errList = []")
        case False
        then have "PrintGatewaysAndHTTPRoutes env pr w =
            Some (pr2, called (Conversion items) w3, Some (aggregateErrors errList))"
          by (simp add: PrintGatewaysAndHTTPRoutes_def i n None g Inr c)
        then show ?thesis unfolding pr2 by blast
      next
        case True
        have "pr2\<lparr>resourcePrinter := Some (foldl notePrinted P0 (spec_order httpRoutes gateways))\<rparr> =
            pr\<lparr>resourcePrinter := Some (foldl notePrinted P0 (spec_order httpRoutes gateways)),
               namespaceFilter := f\<rparr>"
          by (simp add: pr2)
        with True have "PrintGatewaysAndHTTPRoutes env pr w =
            Some (pr\<lparr>resourcePrinter := Some (foldl notePrinted P0 (spec_order httpRoutes gateways)),
                     namespaceFilter := f\<rparr>,
                  followedBy (called (Conversion items) w3)
                    \<lparr>stdout = spec_rendering env P0 (spec_order httpRoutes gateways),
                     calls = map PrintObjCall (spec_order httpRoutes gateways)\<rparr>,
                  None)"
          by (simp add: PrintGatewaysAndHTTPRoutes_def i n None g Inr c
              outputResult_followedBy [OF rp2])
        then show ?thesis by blast
      qed
    qed
  qed
qed

text \<open>
  Claim C9. With the collaborators fixed (the same input file, the same current
  namespace, a conversion and printers that are functions of what they are given), a
  second invocation on the runner that the first one left behind writes the same bytes
  to the standard output, makes the same calls and returns the same error as the first.
\<close>

theorem second_run_renders_the_same:
  "\<exists>pr1 d e pr2.
     PrintGatewaysAndHTTPRoutes env pr w = Some (pr1, followedBy w d, e) \<and>
     PrintGatewaysAndHTTPRoutes env pr1 (followedBy w d) = Some (pr2, followedBy (followedBy w d) d, e)"
proof -
  obtain x y w1 e where r1:
    "PrintGatewaysAndHTTPRoutes env pr w = Some (pr\<lparr>resourcePrinter := x, namespaceFilter := y\<rparr>, w1, e)"
    using run_returns by blast
  let ?pr1 = "pr\<lparr>resourcePrinter := x, namespaceFilter := y\<rparr>"
  obtain x' y' w2 e' where r2:
    "PrintGatewaysAndHTTPRoutes env ?pr1 w1 =
       Some (?pr1\<lparr>resourcePrinter := x', namespaceFilter := y'\<rparr>, w2, e')"
    using run_returns by blast
  obtain pr0 d e0 where r0: "PrintGatewaysAndHTTPRoutes env pr emptyWorld = Some (pr0, d, e0)"
    using run_returns by blast
  have "map_option snd (PrintGatewaysAndHTTPRoutes env
          (pr\<lparr>resourcePrinter := resourcePrinter pr, namespaceFilter := namespaceFilter pr\<rparr>) w) =
        Some (followedBy w d, e0)"
    unfolding run_frame by (simp add: r0)
  then have first: "w1 = followedBy w d \<and> e = e0"
    using r1 by simp
  have "map_option snd (PrintGatewaysAndHTTPRoutes env ?pr1 w1) = Some (followedBy w1 d, e0)"
    unfolding run_frame by (simp add: r0)
  then have second: "w2 = followedBy w1 d \<and> e' = e0"
    using r2 by simp
  show ?thesis
    using r1 r2 first second by blast
qed

end
